theory Spec2Isabelle
  imports Main "HOL-Library.Word"
begin

section \<open>Values of the host language\<close>

text \<open>
  A JavaScript string is a sequence of UTF-16 code units, and its \<open>length\<close> counts code
  units.  A Node \<open>Buffer\<close> is a sequence of bytes of fixed length.  The placeholder
  source, whose length is decoded from the buffer, is bounded by the engine's maximum string
  length: building a longer string throws.
\<close>

type_synonym byte = "8 word"
type_synonym buffer = "byte list"
type_synonym jsstring = "16 word list"

definition js :: "string \<Rightarrow> jsstring" where
  \<comment> \<open>an ASCII literal of the source, as code units\<close>
  "js s = map (\<lambda>c. of_nat (of_char c)) s"

datatype js_value =
    JSUndefined
  | JSNull
  | JSBoolean bool
  | JSNumber int
  | JSString jsstring
  | JSBuffer buffer
  | JSObject

fun typeof :: "js_value \<Rightarrow> string" where
  "typeof JSUndefined = ''undefined''"
| "typeof JSNull = ''object''"
| "typeof (JSBoolean _) = ''boolean''"
| "typeof (JSNumber _) = ''number''"
| "typeof (JSString _) = ''string''"
| "typeof (JSBuffer _) = ''object''"
| "typeof JSObject = ''object''"

fun isBuffer :: "js_value \<Rightarrow> bool" where
  \<comment> \<open>\<open>Buffer.isBuffer\<close>\<close>
  "isBuffer (JSBuffer _) = True"
| "isBuffer _ = False"

text \<open>
  \<open>throw new Error(msg)\<close> of the source is \<open>Inl\<close> of an error value.  The errors raised
  for a wrong input shape keep their message; the error raised when the engine rejects the
  cache has one fixed message; whatever the engine itself throws is carried along.
\<close>

datatype 'x error =
    InvalidArgument string
  | IncompatibleCache
  | Thrown 'x

section \<open>Buffer and string primitives\<close>

definition slice :: "'a list \<Rightarrow> nat \<Rightarrow> nat \<Rightarrow> 'a list" where
  \<comment> \<open>\<open>buf.slice(start, end)\<close> for non-negative indices: both ends are clamped to the length\<close>
  "slice buf start end = take (end - start) (drop start buf)"

definition copy :: "buffer \<Rightarrow> buffer \<Rightarrow> nat \<Rightarrow> buffer" where
  \<comment> \<open>\<open>source.copy(target, targetStart)\<close>: the target after the call.  Nothing is copied
      when \<open>targetStart\<close> is past the end; otherwise as many bytes as fit, and the length
      of the target never changes.\<close>
  "copy source target targetStart =
     (if targetStart \<ge> length target then target
      else let nb = min (length source) (length target - targetStart)
           in take targetStart target @ take nb source @ drop (targetStart + nb) target)"

definition startsWith :: "jsstring \<Rightarrow> jsstring \<Rightarrow> bool" where
  "startsWith s p = (take (length p) s = p)"

section \<open>The engine\<close>

text \<open>
  The script engine (\<open>vm.Script\<close>) is outside the repository and is a parameter: a
  constructor that may throw, the two ways of obtaining the cache of a compiled script, the
  flag telling that supplied cache data was rejected, and the execution of a script.  The
  engine also fixes the maximum length of a string and the \<open>RangeError\<close> it throws when
  a longer string is built.  Every call made to the engine is appended to a log, so that the
  order of the calls, and their absence, can be stated.
\<close>

record script_options =
  opt_produceCachedData :: bool
  opt_cachedData :: "js_value option"
  opt_filename :: "jsstring option"

record ('s, 'v, 'x) engine =
  new_Script :: "jsstring \<Rightarrow> script_options \<Rightarrow> 'x + 's"
  createCachedData :: "('s \<Rightarrow> buffer) option"
  cachedData :: "'s \<Rightarrow> buffer"
  cachedDataRejected :: "'s \<Rightarrow> bool"
  runInThisContext :: "'s \<Rightarrow> 'x + 'v"
  max_string_length :: nat
  range_error :: 'x

definition repeat :: "('s, 'v, 'x) engine \<Rightarrow> jsstring \<Rightarrow> nat \<Rightarrow> 'x error + jsstring" where
  \<comment> \<open>\<open>s.repeat(count)\<close> for a count that is not negative\<close>
  "repeat eng s count =
     (if length s * count > max_string_length eng then Inl (Thrown (range_error eng))
      else Inr (concat (replicate count s)))"

definition string_plus ::
  "('s, 'v, 'x) engine \<Rightarrow> jsstring \<Rightarrow> jsstring \<Rightarrow> 'x error + jsstring" where
  \<comment> \<open>\<open>a + b\<close> on two strings\<close>
  "string_plus eng a b =
     (if length a + length b > max_string_length eng then Inl (Thrown (range_error eng))
      else Inr (a @ b))"

datatype engine_call =
    NewScript jsstring script_options
  | CreateCachedData
  | RunInThisContext

type_synonym trace = "engine_call list"

section \<open>Cache Compiler\<close>

definition compileCode ::
  "('s, 'v, 'x) engine \<Rightarrow> js_value \<Rightarrow> trace \<Rightarrow> ('x error + buffer) \<times> trace" where
  "compileCode eng javascriptCode tr =
     (case javascriptCode of
        JSString code \<Rightarrow>
          (let opts = \<lparr>opt_produceCachedData = True, opt_cachedData = None,
                       opt_filename = None\<rparr>;
               tr1 = tr @ [NewScript code opts]
           in case new_Script eng code opts of
                Inl x \<Rightarrow> (Inl (Thrown x), tr1)
              | Inr script \<Rightarrow>
                  (case createCachedData eng of
                     Some create \<Rightarrow> (Inr (create script), tr1 @ [CreateCachedData])
                   | None \<Rightarrow> (Inr (cachedData eng script), tr1)))
      | _ \<Rightarrow>
          (Inl (InvalidArgument (''javascriptCode must be string. '' @ typeof javascriptCode
                                  @ '' was given.'')), tr))"

section \<open>Header Patcher\<close>

definition dummySource :: jsstring where
  \<comment> \<open>the literal \<open>'"\<dots>"'\<close> compiled by \<open>fixBytecode\<close>: a quote, U+0CA0, an underscore,
      U+0CA0, a quote\<close>
  "dummySource = [0x22, 0x0CA0, 0x5F, 0x0CA0, 0x22]"

definition fixBytecode_copy :: "jsstring \<Rightarrow> buffer \<Rightarrow> buffer \<Rightarrow> buffer" where
  \<comment> \<open>the version branches of \<open>fixBytecode\<close>: the caller's buffer after the copies\<close>
  "fixBytecode_copy version dummyBytecode bytecodeBuffer =
     (if startsWith version (js ''v8.8'') \<or> startsWith version (js ''v8.9'') then
        copy (slice dummyBytecode 20 24)
          (copy (slice dummyBytecode 16 20) bytecodeBuffer 16) 20
      else if startsWith version (js ''v12'') \<or> startsWith version (js ''v13'') \<or>
              startsWith version (js ''v14'') \<or> startsWith version (js ''v15'') then
        copy (slice dummyBytecode 12 16) bytecodeBuffer 12
      else
        copy (slice dummyBytecode 16 20)
          (copy (slice dummyBytecode 12 16) bytecodeBuffer 12) 16)"

definition fixBytecode ::
  "('s, 'v, 'x) engine \<Rightarrow> jsstring \<Rightarrow> js_value \<Rightarrow> trace
     \<Rightarrow> ('x error + unit) \<times> js_value \<times> trace" where
  \<comment> \<open>the result, the caller's object after the call, and the log\<close>
  "fixBytecode eng version bytecodeBuffer tr =
     (case bytecodeBuffer of
        JSBuffer b \<Rightarrow>
          (case compileCode eng (JSString dummySource) tr of
             (Inl e, tr1) \<Rightarrow> (Inl e, bytecodeBuffer, tr1)
           | (Inr dummyBytecode, tr1) \<Rightarrow>
               (Inr (), JSBuffer (fixBytecode_copy version dummyBytecode b), tr1))
      | _ \<Rightarrow> (Inl (InvalidArgument ''bytecodeBuffer must be a buffer object.''),
              bytecodeBuffer, tr))"

section \<open>Source-Hash Reader\<close>

definition reduce_sum :: "buffer \<Rightarrow> nat" where
  \<comment> \<open>\<open>.reduce((sum, number, power) => sum += number * Math.pow(256, power), 0)\<close>; the
      values stay below \<open>2 ^ 32\<close> on a slice of four bytes, where the engine's numbers
      are exact\<close>
  "reduce_sum bytes =
     foldl (\<lambda>sum (number, power). sum + unat number * 256 ^ power) 0
       (zip bytes [0 ..< length bytes])"

definition readSourceHash :: "jsstring \<Rightarrow> js_value \<Rightarrow> 'x error + nat" where
  "readSourceHash version bytecodeBuffer =
     (case bytecodeBuffer of
        JSBuffer b \<Rightarrow>
          (if startsWith version (js ''v8.8'') \<or> startsWith version (js ''v8.9'') then
             Inr (reduce_sum (slice b 12 16))
           else
             Inr (reduce_sum (slice b 8 12)))
      | _ \<Rightarrow> Inl (InvalidArgument ''bytecodeBuffer must be a buffer object.''))"

section \<open>Bytecode Runner\<close>

definition dummyCode :: "('s, 'v, 'x) engine \<Rightarrow> nat \<Rightarrow> 'x error + jsstring" where
  \<comment> \<open>the placeholder built from the decoded length, \<open>'"' + '\u200b'.repeat(length - 2) + '"'\<close>
      when the length exceeds 1; U+200B is the zero width space\<close>
  "dummyCode eng len =
     (if len > 1 then
        (case repeat eng [0x200B] (len - 2) of
           Inl e \<Rightarrow> Inl e
         | Inr spaces \<Rightarrow>
             (case string_plus eng [0x22] spaces of
                Inl e \<Rightarrow> Inl e
              | Inr opened \<Rightarrow> string_plus eng opened [0x22]))
      else Inr [])"

definition runBytecode ::
  "('s, 'v, 'x) engine \<Rightarrow> jsstring \<Rightarrow> js_value \<Rightarrow> trace
     \<Rightarrow> ('x error + 'v) \<times> js_value \<times> trace" where
  "runBytecode eng version bytecodeBuffer tr =
     (if \<not> isBuffer bytecodeBuffer then
        (Inl (InvalidArgument ''bytecodeBuffer must be a buffer object.''),
         bytecodeBuffer, tr)
      else
        case fixBytecode eng version bytecodeBuffer tr of
          (Inl e, buf1, tr1) \<Rightarrow> (Inl e, buf1, tr1)
        | (Inr _, buf1, tr1) \<Rightarrow>
            (case readSourceHash version buf1 of
               Inl e \<Rightarrow> (Inl e, buf1, tr1)
             | Inr len \<Rightarrow>
                 (case dummyCode eng len of
                    Inl e \<Rightarrow> (Inl e, buf1, tr1)
                  | Inr code \<Rightarrow>
                      (let opts = \<lparr>opt_produceCachedData = False,
                                   opt_cachedData = Some buf1, opt_filename = None\<rparr>;
                           tr2 = tr1 @ [NewScript code opts]
                       in case new_Script eng code opts of
                            Inl x \<Rightarrow> (Inl (Thrown x), buf1, tr2)
                          | Inr script \<Rightarrow>
                              if cachedDataRejected eng script then
                                (Inl IncompatibleCache, buf1, tr2)
                              else
                                (case runInThisContext eng script of
                                   Inl x \<Rightarrow>
                                     (Inl (Thrown x), buf1, tr2 @ [RunInThisContext])
                                 | Inr v \<Rightarrow>
                                     (Inr v, buf1, tr2 @ [RunInThisContext]))))))"

section \<open>Files, paths and the module system\<close>

text \<open>
  The file system is a map from paths to contents, with a log of the writes in the order
  they happen.  Reading a missing file and a refused write throw what the host throws.
  The host's library functions (\<open>path\<close>, \<open>Module.wrap\<close>, UTF-8 coding,
  \<open>String.prototype.replace\<close> with a string pattern) and the outcome of the forked
  child process are parameters.
\<close>

record world =
  files :: "jsstring \<rightharpoonup> buffer"
  writes :: "(jsstring \<times> buffer) list"

record 'x host =
  read_error :: "jsstring \<Rightarrow> 'x"
  write_error :: "jsstring \<Rightarrow> 'x option"
  type_error :: 'x
  utf8_decode :: "buffer \<Rightarrow> jsstring"
  utf8_encode :: "jsstring \<Rightarrow> buffer"
  Module_wrap :: "jsstring \<Rightarrow> jsstring"
  path_join :: "jsstring list \<Rightarrow> jsstring"
  path_dirname :: "jsstring \<Rightarrow> jsstring"
  path_parse_name :: "jsstring \<Rightarrow> jsstring"
  path_relative :: "jsstring \<Rightarrow> jsstring \<Rightarrow> jsstring"
  string_replace :: "jsstring \<Rightarrow> jsstring \<Rightarrow> jsstring \<Rightarrow> jsstring"
  child_process :: "jsstring \<Rightarrow> 'x + buffer"

definition readFileSync :: "'x host \<Rightarrow> world \<Rightarrow> jsstring \<Rightarrow> 'x error + buffer" where
  "readFileSync h w path =
     (case files w path of
        None \<Rightarrow> Inl (Thrown (read_error h path))
      | Some data \<Rightarrow> Inr data)"

definition writeFileSync ::
  "'x host \<Rightarrow> jsstring \<Rightarrow> buffer \<Rightarrow> world \<Rightarrow> ('x error + unit) \<times> world" where
  "writeFileSync h path data w =
     (case write_error h path of
        Some x \<Rightarrow> (Inl (Thrown x), w)
      | None \<Rightarrow>
          (Inr (), w\<lparr>files := (files w)(path \<mapsto> data),
                      writes := writes w @ [(path, data)]\<rparr>))"

definition existsSync :: "world \<Rightarrow> jsstring \<Rightarrow> bool" where
  "existsSync w path = (files w path \<noteq> None)"

fun truthy :: "js_value \<Rightarrow> bool" where
  "truthy JSUndefined = False"
| "truthy JSNull = False"
| "truthy (JSBoolean b) = b"
| "truthy (JSNumber n) = (n \<noteq> 0)"
| "truthy (JSString s) = (s \<noteq> [])"
| "truthy (JSBuffer _) = True"
| "truthy JSObject = True"

definition line_terminator :: "16 word \<Rightarrow> bool" where
  "line_terminator c = (c = 0x0A \<or> c = 0x0D \<or> c = 0x2028 \<or> c = 0x2029)"

definition strip_shebang :: "jsstring \<Rightarrow> jsstring" where
  \<comment> \<open>\<open>.replace(/^#!.*/, '')\<close>: a leading \<open>#!\<close> and the rest of the first line\<close>
  "strip_shebang s =
     (if startsWith s (js ''#!'') then dropWhile (\<lambda>c. \<not> line_terminator c) (drop 2 s)
      else s)"

section \<open>Remote Compiler\<close>

definition compileElectronCode :: "'x host \<Rightarrow> world \<Rightarrow> jsstring \<Rightarrow> 'x error + buffer" where
  \<comment> \<open>the value the promise settles with: \<open>Inl\<close> is a rejection.  The forked process and
      its pipes are the host's \<open>child_process\<close>.\<close>
  "compileElectronCode h w javascriptCode =
     (let electronPath = path_join h [js ''node_modules'', js ''electron'', js ''cli.js'']
      in if \<not> existsSync w electronPath then Inl (InvalidArgument ''Electron not installed'')
         else case child_process h javascriptCode of
                Inl x \<Rightarrow> Inl (Thrown x)
              | Inr data \<Rightarrow> Inr data)"

section \<open>Loader stub\<close>

definition loaderCode :: "jsstring \<Rightarrow> jsstring" where
  "loaderCode relativePath =
     [0x0A] @ js ''    const bytenode = require('' @ [0x27] @ js ''bytenode'' @ [0x27]
       @ js '');'' @ [0x0A]
       @ js ''    require('' @ [0x27] @ js ''./'' @ relativePath @ [0x27] @ js '');''
       @ [0x0A] @ js ''  ''"

definition addLoaderFile ::
  "'x host \<Rightarrow> jsstring \<Rightarrow> js_value \<Rightarrow> world \<Rightarrow> ('x error + unit) \<times> world" where
  "addLoaderFile h fileToLoad loaderFilename w =
     (let loaderFilePath =
            (case loaderFilename of
               JSBoolean _ \<Rightarrow> Inr (string_replace h fileToLoad (js ''.jsc'') (js ''.loader.js''))
             | JSUndefined \<Rightarrow> Inr (string_replace h fileToLoad (js ''.jsc'') (js ''.loader.js''))
             | JSString lf \<Rightarrow>
                 if lf = [] then
                   Inr (string_replace h fileToLoad (js ''.jsc'') (js ''.loader.js''))
                 else
                   Inr (path_join h [path_dirname h fileToLoad,
                          string_replace h lf (js ''%'') (path_parse_name h fileToLoad)])
             | _ \<Rightarrow> Inl (Thrown (type_error h)))
      in case loaderFilePath of
           Inl e \<Rightarrow> (Inl e, w)
         | Inr lpath \<Rightarrow>
             (let relativePath = path_relative h (path_dirname h lpath) fileToLoad;
                  code = loaderCode relativePath
              in writeFileSync h lpath (utf8_encode h code) w))"

section \<open>Compiling a file\<close>

record bytenode_options =
  args_filename :: js_value
  args_output :: js_value
  args_compileAsModule :: js_value
  args_electron :: js_value
  args_createLoader :: js_value
  args_loaderFilename :: js_value

datatype compile_args = ArgsString jsstring | ArgsObject bytenode_options

definition COMPILED_EXTNAME :: jsstring where
  "COMPILED_EXTNAME = js ''.jsc''"

definition compileFile ::
  "('s, 'v, 'x) engine \<Rightarrow> 'x host \<Rightarrow> compile_args \<Rightarrow> js_value \<Rightarrow> world \<Rightarrow> trace
     \<Rightarrow> ('x error + jsstring) \<times> world \<times> trace" where
  \<comment> \<open>the value the promise settles with, the file system and the engine log afterwards\<close>
  "compileFile eng h args output w tr =
     (let (filename, compileAsModule, electron, createLoader, loaderFilename) =
            (case args of
               ArgsString s \<Rightarrow> (JSString s, True, JSBoolean False, False, JSUndefined)
             | ArgsObject a \<Rightarrow>
                 (args_filename a, args_compileAsModule a \<noteq> JSBoolean False,
                  args_electron a,
                  (if truthy (args_loaderFilename a) then True else True),
                  args_loaderFilename a));
          argsOutput = (case args of ArgsString _ \<Rightarrow> JSUndefined
                                   | ArgsObject a \<Rightarrow> args_output a)
      in case filename of
           JSString fname \<Rightarrow>
             (let compiledFilename =
                    (if truthy argsOutput then argsOutput
                     else if truthy output then output
                     else JSString (take (length fname - 3) fname @ COMPILED_EXTNAME))
              in case compiledFilename of
                   JSString cname \<Rightarrow>
                     (case readFileSync h w fname of
                        Inl e \<Rightarrow> (Inl e, w, tr)
                      | Inr raw \<Rightarrow>
                          (let javascriptCode = utf8_decode h raw;
                               code = (if compileAsModule
                                       then Module_wrap h (strip_shebang javascriptCode)
                                       else strip_shebang javascriptCode)
                           in case (if truthy electron
                                    then (compileElectronCode h w code, tr)
                                    else compileCode eng (JSString code) tr) of
                                (Inl e, tr1) \<Rightarrow> (Inl e, w, tr1)
                              | (Inr bytecodeBuffer, tr1) \<Rightarrow>
                                  (case writeFileSync h cname bytecodeBuffer w of
                                     (Inl e, w1) \<Rightarrow> (Inl e, w1, tr1)
                                   | (Inr _, w1) \<Rightarrow>
                                       if createLoader then
                                         (case addLoaderFile h cname loaderFilename w1 of
                                            (Inl e, w2) \<Rightarrow> (Inl e, w2, tr1)
                                          | (Inr _, w2) \<Rightarrow> (Inr cname, w2, tr1))
                                       else (Inr cname, w1, tr1))))
                 | _ \<Rightarrow>
                     (Inl (InvalidArgument (''output must be a string. ''
                             @ typeof compiledFilename @ '' was given.'')), w, tr))
         | _ \<Rightarrow>
             (Inl (InvalidArgument (''filename must be a string. '' @ typeof filename
                     @ '' was given.'')), w, tr))"

section \<open>Running an artifact file\<close>

definition runBytecodeFile ::
  "('s, 'v, 'x) engine \<Rightarrow> 'x host \<Rightarrow> jsstring \<Rightarrow> js_value \<Rightarrow> world \<Rightarrow> trace
     \<Rightarrow> ('x error + 'v) \<times> trace" where
  "runBytecodeFile eng h version filename w tr =
     (case filename of
        JSString fname \<Rightarrow>
          (case readFileSync h w fname of
             Inl e \<Rightarrow> (Inl e, tr)
           | Inr bytecodeBuffer \<Rightarrow>
               (case runBytecode eng version (JSBuffer bytecodeBuffer) tr of
                  (r, _, tr1) \<Rightarrow> (r, tr1)))
      | _ \<Rightarrow>
          (Inl (InvalidArgument (''filename must be a string. '' @ typeof filename
                  @ '' was given.'')), tr))"

section \<open>Module Loader Hook\<close>

text \<open>
  The objects handed to the compiled wrapper are kept symbolic.  The \<open>require\<close> function
  built by the hook is described by the module it forwards to, the module its \<open>resolve\<close>
  resolves from, its \<open>main\<close> (set when the process has a main module) and the two
  registries attached as \<open>extensions\<close> and \<open>cache\<close>.  Calling the value the script
  returned is the host's business and a parameter: a value that cannot be called has no
  behaviour (\<open>None\<close>), and applying it throws the host's \<open>TypeError\<close> without any call
  being made.
\<close>

datatype registry = Module_extensions | Module_cache

record 'm require_function =
  require_forwards_to :: 'm
  require_resolve :: 'm
  require_main :: "'m option"
  require_extensions :: registry
  require_cache :: registry

datatype 'm wrapper_arg =
    ExportsOf 'm
  | Require "'m require_function"
  | ModuleHandle 'm
  | StringArg jsstring
  | ProcessHandle
  | GlobalObject

record 'm invocation =
  this_arg :: "'m wrapper_arg"
  arguments :: "'m wrapper_arg list"

definition jsc_extension ::
  "('s, 'v, 'x) engine \<Rightarrow> 'x host \<Rightarrow> jsstring \<Rightarrow> 'm option
     \<Rightarrow> ('v \<Rightarrow> ('m invocation \<Rightarrow> 'x + 'r) option)
     \<Rightarrow> 'm \<Rightarrow> jsstring \<Rightarrow> world \<Rightarrow> trace
     \<Rightarrow> ('x error + 'r) \<times> trace \<times> 'm invocation option" where
  \<comment> \<open>\<open>Module._extensions['.jsc']\<close>: the result, the engine log, and the call of the
      compiled wrapper when one is made\<close>
  "jsc_extension eng h version mainModule callable module filename w tr =
     (case readFileSync h w filename of
        Inl e \<Rightarrow> (Inl e, tr, None)
      | Inr bytes \<Rightarrow>
          (case fixBytecode eng version (JSBuffer bytes) tr of
             (Inl e, buf1, tr1) \<Rightarrow> (Inl e, tr1, None)
           | (Inr _, buf1, tr1) \<Rightarrow>
               (case readSourceHash version buf1 of
                  Inl e \<Rightarrow> (Inl e, tr1, None)
                | Inr len \<Rightarrow>
                    (case dummyCode eng len of
                       Inl e \<Rightarrow> (Inl e, tr1, None)
                     | Inr code \<Rightarrow>
                         (let opts = \<lparr>opt_produceCachedData = False,
                                      opt_cachedData = Some buf1,
                                      opt_filename = Some filename\<rparr>;
                              tr2 = tr1 @ [NewScript code opts]
                          in case new_Script eng code opts of
                               Inl x \<Rightarrow> (Inl (Thrown x), tr2, None)
                             | Inr script \<Rightarrow>
                                 if cachedDataRejected eng script then
                                   (Inl IncompatibleCache, tr2, None)
                                 else
                                   (let require = \<lparr>require_forwards_to = module,
                                                   require_resolve = module,
                                                   require_main = mainModule,
                                                   require_extensions = Module_extensions,
                                                   require_cache = Module_cache\<rparr>
                                    in case runInThisContext eng script of
                                         Inl x \<Rightarrow>
                                           (Inl (Thrown x), tr2 @ [RunInThisContext], None)
                                       | Inr compiledWrapper \<Rightarrow>
                                           (let dirname = path_dirname h filename;
                                                args = [ExportsOf module, Require require,
                                                        ModuleHandle module,
                                                        StringArg filename,
                                                        StringArg dirname, ProcessHandle,
                                                        GlobalObject];
                                                call = \<lparr>this_arg = ExportsOf module,
                                                        arguments = args\<rparr>
                                            in case callable compiledWrapper of
                                                 None \<Rightarrow>
                                                   (Inl (Thrown (type_error h)),
                                                    tr2 @ [RunInThisContext], None)
                                               | Some body \<Rightarrow>
                                                   (case body call of
                                                      Inl x \<Rightarrow> Inl (Thrown x)
                                                    | Inr r \<Rightarrow> Inr r,
                                                    tr2 @ [RunInThisContext],
                                                    Some call))))))))"

section \<open>The module wrapper of the host\<close>

text \<open>
  \<open>Module.wrap\<close> of Node puts a script between the two strings of \<open>Module.wrapper\<close>, so
  that the compiled unit is a function expression.  The formal parameters of that function
  are read off the text: the names between the second opening parenthesis and the closing
  one, separated by commas.  A call binds them, in order, to the arguments it passes;
  arguments beyond the last parameter are bound to no name.
\<close>

definition Module_wrapper :: "jsstring \<times> jsstring" where
  "Module_wrapper =
     (js ''(function (exports, require, module, __filename, __dirname) { '',
      [0x0A] @ js ''});'')"

definition Node_Module_wrap :: "jsstring \<Rightarrow> jsstring" where
  "Node_Module_wrap script = fst Module_wrapper @ script @ snd Module_wrapper"

fun split_commas :: "jsstring \<Rightarrow> jsstring \<Rightarrow> jsstring list" where
  \<comment> \<open>the pieces between commas; the first argument is the piece being read\<close>
  "split_commas piece [] = [piece]"
| "split_commas piece (c # cs) =
     (if c = 0x2C then piece # split_commas [] cs else split_commas (piece @ [c]) cs)"

definition formal_parameters :: "jsstring \<Rightarrow> jsstring list" where
  "formal_parameters text =
     map (dropWhile (\<lambda>c. c = 0x20))
       (split_commas []
          (takeWhile (\<lambda>c. c \<noteq> 0x29)
             (drop 1 (dropWhile (\<lambda>c. c \<noteq> 0x28) (drop 1 (dropWhile (\<lambda>c. c \<noteq> 0x28) text))))))"

definition bind_parameters :: "jsstring list \<Rightarrow> 'a list \<Rightarrow> (jsstring \<times> 'a) list" where
  "bind_parameters names args = zip names args"

section \<open>The source-length check of the engine\<close>

text \<open>
  The invariant of the specification's data model: the engine rejects cache data whose
  source-length field differs from the length of the source supplied with it.
\<close>

definition checks_source_length :: "('s, 'v, 'x) engine \<Rightarrow> jsstring \<Rightarrow> bool" where
  "checks_source_length eng version =
     (\<forall>code buf opts script.
        opt_cachedData opts = Some (JSBuffer buf) \<longrightarrow>
        new_Script eng code opts = Inr script \<longrightarrow>
        readSourceHash version (JSBuffer buf) \<noteq> (Inr (length code) :: 'x error + nat) \<longrightarrow>
        cachedDataRejected eng script)"

section \<open>Version profile\<close>

text \<open>
  The three layouts of the specification and the signatures that select them, stated apart
  from the code so that the code can be compared with them: the byte ranges \<open>[start, end)\<close>
  the patcher copies, and the offset of the four-byte field the reader decodes.
\<close>

datatype layout = Early | Mid | Current

definition early_signature :: "jsstring \<Rightarrow> bool" where
  "early_signature version =
     (startsWith version (js ''v8.8'') \<or> startsWith version (js ''v8.9''))"

definition mid_signature :: "jsstring \<Rightarrow> bool" where
  "mid_signature version =
     (startsWith version (js ''v12'') \<or> startsWith version (js ''v13'') \<or>
      startsWith version (js ''v14'') \<or> startsWith version (js ''v15''))"

definition layout_of :: "jsstring \<Rightarrow> layout" where
  "layout_of version =
     (if early_signature version then Early
      else if mid_signature version then Mid
      else Current)"

fun patch_ranges :: "layout \<Rightarrow> (nat \<times> nat) list" where
  "patch_ranges Early = [(16, 20), (20, 24)]"
| "patch_ranges Mid = [(12, 16)]"
| "patch_ranges Current = [(12, 16), (16, 20)]"

fun hash_offset :: "layout \<Rightarrow> nat" where
  "hash_offset Early = 12"
| "hash_offset Mid = 8"
| "hash_offset Current = 8"

definition in_ranges :: "(nat \<times> nat) list \<Rightarrow> nat \<Rightarrow> bool" where
  "in_ranges rs i = list_ex (\<lambda>(s, e). s \<le> i \<and> i < e) rs"

section \<open>A sample engine\<close>

text \<open>
  A small engine on which the theorems are instantiated at concrete inputs.  A script is
  its source and the cache data it was given.  The cache of a source is a header of 24 bytes
  whose field at offset 8 holds the length of the source, followed by the source's code
  units as bytes.  Cache data is rejected when that field differs from the length of the
  source supplied with it.  Running a script yields the number of bytes of its payload.
  The maximum string length is \<open>2 ^ 29 - 24\<close>.
\<close>

type_synonym sample_script = "jsstring \<times> js_value option"

definition sample_cache :: "jsstring \<Rightarrow> buffer" where
  "sample_cache code =
     [0xDE, 0xC0, 0x17, 0xC0, 1, 2, 3, 4] @
     [of_nat (length code mod 256), of_nat (length code div 256 mod 256),
      of_nat (length code div 65536 mod 256), of_nat (length code div 16777216 mod 256)] @
     [5, 6, 7, 8, 9, 10, 11, 12, 13, 14, 15, 16] @
     map (\<lambda>c. of_nat (unat c)) code"

definition sample_rejected :: "sample_script \<Rightarrow> bool" where
  "sample_rejected script =
     (case snd script of
        Some (JSBuffer b) \<Rightarrow> reduce_sum (slice b 8 12) \<noteq> length (fst script)
      | Some _ \<Rightarrow> True
      | None \<Rightarrow> False)"

datatype sample_exception = SampleRangeError | SampleTypeError | SampleIOError

definition sample_run :: "sample_script \<Rightarrow> sample_exception + nat" where
  "sample_run script =
     (case snd script of
        Some (JSBuffer b) \<Rightarrow> Inr (length b - 24)
      | _ \<Rightarrow> Inr 0)"

definition sample_engine :: "(sample_script, nat, sample_exception) engine" where
  "sample_engine =
     \<lparr>new_Script = (\<lambda>code opts. Inr (code, opt_cachedData opts)),
      createCachedData = Some (\<lambda>script. sample_cache (fst script)),
      cachedData = (\<lambda>script. sample_cache (fst script)),
      cachedDataRejected = sample_rejected,
      runInThisContext = sample_run,
      max_string_length = 536870888,
      range_error = SampleRangeError\<rparr>"

fun replace_first :: "jsstring \<Rightarrow> jsstring \<Rightarrow> jsstring \<Rightarrow> jsstring" where
  \<comment> \<open>the first occurrence of a pattern replaced by a plain string\<close>
  "replace_first [] p r = (if p = [] then r else [])"
| "replace_first (c # cs) p r =
     (if take (length p) (c # cs) = p then r @ drop (length p) (c # cs)
      else c # replace_first cs p r)"

text \<open>
  A sample host whose files all live in the current directory, with a file system that
  holds one source file, \<open>app.js\<close>, containing \<open>1+1\<close>.  Its path functions
  and its string replacement are stand-ins that agree with Node's on such plain file names
  only.
\<close>

definition sample_host :: "sample_exception host" where
  "sample_host =
     \<lparr>read_error = (\<lambda>_. SampleIOError),
      write_error = (\<lambda>_. None),
      type_error = SampleTypeError,
      utf8_decode = map (\<lambda>c. of_nat (unat c)),
      utf8_encode = map (\<lambda>c. of_nat (unat c)),
      Module_wrap = Node_Module_wrap,
      path_join = (\<lambda>ps. concat (map (\<lambda>p. p @ js ''/'') (butlast ps)) @ last ps),
      path_dirname = (\<lambda>_. js ''.''),
      path_parse_name = takeWhile (\<lambda>c. c \<noteq> 0x2E),
      path_relative = (\<lambda>_ p. p),
      string_replace = replace_first,
      child_process = (\<lambda>code. Inr (sample_cache code))\<rparr>"


definition sample_artifacts :: world where
  \<comment> \<open>a file system holding the artifact of \<open>1+1\<close> under \<open>app.jsc\<close>\<close>
  "sample_artifacts = \<lparr>files = [js ''app.jsc'' \<mapsto> sample_cache (js ''1+1'')], writes = []\<rparr>"

definition sample_callable ::
  "nat \<Rightarrow> (nat invocation \<Rightarrow> sample_exception + nat) option" where
  \<comment> \<open>every value but 0 is a function that returns the number of arguments it is called
      with\<close>
  "sample_callable compiledWrapper =
     (if compiledWrapper = 0 then None else Some (\<lambda>call. Inr (length (arguments call))))"

section \<open>Properties of the buffer primitives\<close>

lemma length_copy [simp]: "length (copy s t k) = length t"
  by (auto simp: copy_def Let_def)

lemma nth_copy:
  "i < length t \<Longrightarrow> copy s t k ! i = (if k \<le> i \<and> i < k + length s then s ! (i - k) else t ! i)"
  by (auto simp: copy_def Let_def nth_append min_def)

lemma length_slice [simp]: "length (slice b s e) = min (e - s) (length b - s)"
  by (simp add: slice_def)

lemma nth_slice: "i < length (slice b s e) \<Longrightarrow> slice b s e ! i = b ! (s + i)"
  by (auto simp: slice_def)

lemma copy_slice_nth:
  "copy (slice d s e) t s ! i = (if s \<le> i \<and> i < e \<and> i < length d then d ! i else t ! i)" if "i < length t"
proof (cases "s \<le> i \<and> i < e \<and> i < length d")
  case True
  then have in_slice: "i - s < length (slice d s e)" by (simp add: less_diff_conv2)
  then have "slice d s e ! (i - s) = d ! i" using True by (simp add: nth_slice)
  moreover have "i < s + length (slice d s e)" using in_slice True by linarith
  ultimately show ?thesis using True that by (simp only: nth_copy if_True simp_thms)
next
  case False
  then have "\<not> (s \<le> i \<and> i < s + length (slice d s e))" by auto
  then show ?thesis using False that by (simp only: nth_copy if_False)
qed

lemma take_copy: "e \<le> k \<Longrightarrow> take e (copy s t k) = take e t"
  by (auto simp: copy_def Let_def)

lemma slice_copy: "e \<le> k \<Longrightarrow> slice (copy s t k) a e = slice t a e"
proof -
  assume le: "e \<le> k"
  have "slice x a e = drop a (take e x)" for x :: buffer
    by (cases "a \<le> e") (simp_all add: slice_def drop_take)
  then show ?thesis using le by (simp add: take_copy)
qed

section \<open>Properties of the patcher and the reader\<close>

lemma fix_idem: "fixBytecode_copy v d (fixBytecode_copy v d b) = fixBytecode_copy v d b"
  by (rule nth_equalityI) (auto simp: fixBytecode_copy_def copy_slice_nth)

lemma reduce_sum_gen:
  "foldl (\<lambda>sum (number, power). sum + unat number * 256 ^ power) a (zip xs [k ..< k + length xs])
        = a + (\<Sum>i<length xs. unat (xs ! i) * 256 ^ (k + i))"
proof (induction xs arbitrary: a k)
  case Nil then show ?case by simp
next
  case (Cons x xs)
  have upt: "[k ..< k + length (x # xs)] = k # [Suc k ..< Suc k + length xs]"
    by (subst upt_conv_Cons) simp_all
  have "(\<Sum>i<length (x # xs). unat ((x # xs) ! i) * 256 ^ (k + i))
        = unat x * 256 ^ k + (\<Sum>i<length xs. unat (xs ! i) * 256 ^ (Suc k + i))"
    by (simp add: sum.lessThan_Suc_shift del: sum.lessThan_Suc)
  then show ?case
    unfolding upt using Cons.IH[of "a + unat x * 256 ^ k" "Suc k"] by simp
qed

lemma reduce_sum_eq: "reduce_sum xs = (\<Sum>i<length xs. unat (xs ! i) * 256 ^ i)"
  using reduce_sum_gen[of 0 xs 0] by (simp add: reduce_sum_def)

lemma readSourceHash_copy:
  "readSourceHash version (JSBuffer (fixBytecode_copy version d b)) = readSourceHash version (JSBuffer b)"
  by (simp add: readSourceHash_def fixBytecode_copy_def slice_copy)

lemma compileCode_result_trace:
  "fst (compileCode eng v tr) = fst (compileCode eng v tr')"
  by (simp add: compileCode_def Let_def split: js_value.splits sum.splits option.splits)

lemma fixBytecode_buffer:
  "fst (snd (fixBytecode eng version (JSBuffer b) tr)) =
     (case fst (compileCode eng (JSString dummySource) tr) of
        Inl e \<Rightarrow> JSBuffer b
      | Inr d \<Rightarrow> JSBuffer (fixBytecode_copy version d b))"
  by (simp add: fixBytecode_def split: prod.splits sum.splits)

lemma fixBytecode_non_buffer:
  "\<not> isBuffer v \<Longrightarrow> fst (snd (fixBytecode eng version v tr)) = v"
  by (cases v) (simp_all add: fixBytecode_def)

lemma fixBytecode_ok:
  "compileCode eng (JSString dummySource) tr = (Inr d, tr1) \<Longrightarrow>
   fixBytecode eng version (JSBuffer b) tr = (Inr (), JSBuffer (fixBytecode_copy version d b), tr1)"
  by (simp add: fixBytecode_def)

lemma concat_replicate_single: "concat (replicate n [x]) = replicate n x"
  by (induction n) simp_all

lemma dummyCode_small: "len \<le> 1 \<Longrightarrow> dummyCode eng len = Inr []"
  by (simp add: dummyCode_def)

lemma dummyCode_fits:
  "1 < len \<Longrightarrow> len \<le> max_string_length eng \<Longrightarrow>
   dummyCode eng len = Inr ([0x22] @ replicate (len - 2) 0x200B @ [0x22])"
  by (simp add: dummyCode_def repeat_def string_plus_def concat_replicate_single)

lemma dummyCode_oversized:
  "1 < len \<Longrightarrow> max_string_length eng < len \<Longrightarrow>
   dummyCode eng len = Inl (Thrown (range_error eng))"
  by (simp add: dummyCode_def repeat_def string_plus_def concat_replicate_single)

lemma dummyCode_Inl:
  assumes "dummyCode eng len = Inl e"
  shows "e = Thrown (range_error eng) \<and> 1 < len \<and> max_string_length eng < len"
proof (cases "len \<le> 1")
  case True
  with assms show ?thesis by (simp add: dummyCode_small)
next
  case False
  then have big: "1 < len" by simp
  show ?thesis
  proof (cases "len \<le> max_string_length eng")
    case True
    with assms big show ?thesis by (simp add: dummyCode_fits)
  next
    case False
    with assms big show ?thesis by (simp add: dummyCode_oversized)
  qed
qed

lemma dummyCode_Inr:
  assumes "dummyCode eng len = Inr code"
  shows "(len \<le> 1 \<or> len \<le> max_string_length eng) \<and>
         code = (if 1 < len then [0x22] @ replicate (len - 2) 0x200B @ [0x22] else [])"
proof (cases "len \<le> 1")
  case True
  with assms show ?thesis by (simp add: dummyCode_small)
next
  case False
  then have big: "1 < len" by simp
  show ?thesis
  proof (cases "len \<le> max_string_length eng")
    case True
    with assms big show ?thesis by (simp add: dummyCode_fits)
  next
    case False
    with assms big show ?thesis by (simp add: dummyCode_oversized)
  qed
qed

lemma formal_parameters_Node_Module_wrap:
  "formal_parameters (Node_Module_wrap src) =
     [js ''exports'', js ''require'', js ''module'', js ''__filename'', js ''__dirname'']"
  by (simp add: formal_parameters_def Node_Module_wrap_def Module_wrapper_def js_def)



lemma compileFile_compiles_wrapped:
  fixes eng :: "('s, 'v, 'x) engine"
  assumes ok: "compileFile eng h args outp w0 tr0 = (Inr name, w', tr')"
    and wrapped: "case args of ArgsString _ \<Rightarrow> True
                  | ArgsObject a \<Rightarrow> args_compileAsModule a \<noteq> JSBoolean False \<and>
                                  \<not> truthy (args_electron a)"
  shows "\<exists>src rest. tr' = tr0 @ NewScript (Module_wrap h src)
            \<lparr>opt_produceCachedData = True, opt_cachedData = None, opt_filename = None\<rparr> # rest"
proof -
  have "\<exists>raw bc. compileCode eng
          (JSString (Module_wrap h (strip_shebang (utf8_decode h raw)))) tr0 = (Inr bc, tr')"
    using ok wrapped
    by (cases args)
       (auto simp: compileFile_def Let_def
             split: js_value.splits sum.splits prod.splits if_splits)
  then obtain raw bc where
    "compileCode eng (JSString (Module_wrap h (strip_shebang (utf8_decode h raw)))) tr0
       = (Inr bc, tr')"
    by blast
  then show ?thesis
    by (auto simp: compileCode_def Let_def split: sum.splits option.splits)
qed

lemmas sample_defs = sample_engine_def sample_cache_def sample_rejected_def sample_run_def
  compileCode_def dummySource_def js_def startsWith_def

section \<open>The claims\<close>

text \<open>
  C1. The round trip fails for a source of one character.  When the cache of such a source
  carries the length 1 in its source-length field and the engine checks that field against
  the source supplied with the cache, \<open>runBytecode\<close> on the cache never returns a
  completion value: the placeholder for the length 1 is the empty string, whose length is
  0, and the cache is rejected.
\<close>

theorem runBytecode_one_character_source:
  fixes eng :: "('s, 'v, 'x) engine"
  assumes compiled: "compileCode eng (JSString s) tr0 = (Inr cache, tr)"
    and one: "length s = 1"
    and stored: "readSourceHash version (JSBuffer cache) = (Inr (length s) :: 'x error + nat)"
    and checked: "checks_source_length eng version"
  shows "(\<forall>v. fst (runBytecode eng version (JSBuffer cache) tr) \<noteq> Inr v) \<and>
         (\<forall>d tr1 script.
            compileCode eng (JSString dummySource) tr = (Inr d, tr1) \<and>
            new_Script eng []
              \<lparr>opt_produceCachedData = False,
                opt_cachedData = Some (JSBuffer (fixBytecode_copy version d cache)),
                opt_filename = None\<rparr> = Inr script \<longrightarrow>
            runBytecode eng version (JSBuffer cache) tr
              = (Inl IncompatibleCache, JSBuffer (fixBytecode_copy version d cache),
                 tr1 @ [NewScript []
                   \<lparr>opt_produceCachedData = False,
                     opt_cachedData = Some (JSBuffer (fixBytecode_copy version d cache)),
                     opt_filename = None\<rparr>]))"
proof -
  have rejected: "cachedDataRejected eng script"
    if "new_Script eng []
              \<lparr>opt_produceCachedData = False,
                opt_cachedData = Some (JSBuffer (fixBytecode_copy version d cache)),
                opt_filename = None\<rparr> = Inr script" for d script
  proof -
    have "readSourceHash version (JSBuffer (fixBytecode_copy version d cache))
            = (Inr 1 :: 'x error + nat)"
      using stored one by (simp add: readSourceHash_copy)
    then have "readSourceHash version (JSBuffer (fixBytecode_copy version d cache))
            \<noteq> (Inr (length ([] :: jsstring)) :: 'x error + nat)" by simp
    with checked that show ?thesis
      unfolding checks_source_length_def
      by (metis script_options.select_convs(2))
  qed
  have len1: "readSourceHash version (JSBuffer (fixBytecode_copy version d cache))
            = (Inr 1 :: 'x error + nat)" for d
    using stored one by (simp add: readSourceHash_copy)
  have code: "dummyCode eng 1 = Inr []" by (simp add: dummyCode_small)
  show ?thesis
  proof (cases "compileCode eng (JSString dummySource) tr")
    case (Pair r tr1)
    show ?thesis
    proof (cases r)
      case (Inl e)
      with Pair show ?thesis by (simp add: runBytecode_def fixBytecode_def)
    next
      case (Inr d)
      let ?opts = "\<lparr>opt_produceCachedData = False,
                opt_cachedData = Some (JSBuffer (fixBytecode_copy version d cache)),
                opt_filename = None\<rparr>"
      from Pair Inr have fixed: "fixBytecode eng version (JSBuffer cache) tr
          = (Inr (), JSBuffer (fixBytecode_copy version d cache), tr1)"
        by (simp add: fixBytecode_ok)
      show ?thesis
      proof (cases "new_Script eng [] ?opts")
        case (Inl x)
        then show ?thesis using fixed len1[of d] code Pair Inr
          by (simp add: runBytecode_def)
      next
        case (Inr script)
        then show ?thesis using fixed len1[of d] code Pair \<open>r = Inr d\<close> rejected[OF Inr]
          by (simp add: runBytecode_def)
      qed
    qed
  qed
qed

text \<open>On the sample engine, the cache of the source \<open>1\<close>.\<close>

theorem runBytecode_one_character_source_witness:
  "runBytecode sample_engine (js ''v16.0.0'')
     (JSBuffer [0xDE, 0xC0, 0x17, 0xC0, 1, 2, 3, 4, 1, 0, 0, 0,
                5, 6, 7, 8, 9, 10, 11, 12, 13, 14, 15, 16, 0x31])
     [NewScript [0x31] \<lparr>opt_produceCachedData = True, opt_cachedData = None,
                    opt_filename = None\<rparr>, CreateCachedData]
   = (Inl IncompatibleCache,
      JSBuffer [0xDE, 0xC0, 0x17, 0xC0, 1, 2, 3, 4, 1, 0, 0, 0,
                5, 6, 7, 8, 9, 10, 11, 12, 13, 14, 15, 16, 0x31],
      [NewScript [0x31] \<lparr>opt_produceCachedData = True, opt_cachedData = None,
                    opt_filename = None\<rparr>, CreateCachedData,
       NewScript dummySource \<lparr>opt_produceCachedData = True, opt_cachedData = None,
                    opt_filename = None\<rparr>, CreateCachedData,
       NewScript []
         \<lparr>opt_produceCachedData = False,
           opt_cachedData = Some (JSBuffer [0xDE, 0xC0, 0x17, 0xC0, 1, 2, 3, 4, 1, 0, 0, 0,
                5, 6, 7, 8, 9, 10, 11, 12, 13, 14, 15, 16, 0x31]),
           opt_filename = None\<rparr>])"
proof -
  let ?cache = "[0xDE, 0xC0, 0x17, 0xC0, 1, 2, 3, 4, 1, 0, 0, 0,
                5, 6, 7, 8, 9, 10, 11, 12, 13, 14, 15, 16, 0x31] :: buffer"
  let ?tr = "[NewScript [0x31] \<lparr>opt_produceCachedData = True, opt_cachedData = None,
                    opt_filename = None\<rparr>, CreateCachedData]"
  let ?opts = "\<lparr>opt_produceCachedData = False, opt_cachedData = Some (JSBuffer ?cache),
                opt_filename = None\<rparr>"
  have compiled: "compileCode sample_engine (JSString [0x31]) [] = (Inr ?cache, ?tr)"
    by (simp add: compileCode_def sample_engine_def sample_cache_def)
  have one: "length ([0x31] :: jsstring) = 1" by simp
  have stored: "readSourceHash (js ''v16.0.0'') (JSBuffer ?cache)
                  = (Inr (length ([0x31] :: jsstring)) :: sample_exception error + nat)"
    by (simp add: readSourceHash_def reduce_sum_def slice_def js_def startsWith_def)
  have checked: "checks_source_length sample_engine (js ''v16.0.0'')"
    by (auto simp: checks_source_length_def sample_engine_def sample_rejected_def
                   readSourceHash_def js_def startsWith_def)
  have dummy: "compileCode sample_engine (JSString dummySource) ?tr
              = (Inr (sample_cache dummySource),
                 ?tr @ [NewScript dummySource \<lparr>opt_produceCachedData = True,
                    opt_cachedData = None, opt_filename = None\<rparr>, CreateCachedData])"
    by (simp add: compileCode_def sample_engine_def)
  have same: "fixBytecode_copy (js ''v16.0.0'') (sample_cache dummySource) ?cache = ?cache"
    by (simp add: fixBytecode_copy_def sample_defs copy_def slice_def)
  have script: "new_Script sample_engine [] ?opts = Inr ([], Some (JSBuffer ?cache))"
    by (simp add: sample_engine_def)
  from runBytecode_one_character_source[OF compiled one stored checked, THEN conjunct2,
         rule_format, of "sample_cache dummySource" _ "([], Some (JSBuffer ?cache))"]
       dummy same script
  show ?thesis by simp
qed

text \<open>
  C2. For a byte buffer for which the engine compiles the dummy source, \<open>runBytecode\<close>
  first patches the caller's buffer in place, whatever happens afterwards, then decodes the
  placeholder length from the patched buffer.  When the placeholder cannot be built, or its
  compilation throws, the error is not \<open>IncompatibleCache\<close> and no script is run.  When
  the placeholder is compiled with the patched buffer as cache data, the result is
  \<open>IncompatibleCache\<close> exactly when the engine reports the cache as rejected, and then
  the script is not run; when it is not rejected the script is run and its completion is
  the result.
\<close>

theorem runBytecode_steps:
  fixes eng :: "('s, 'v, 'x) engine"
  assumes dummy: "compileCode eng (JSString dummySource) tr = (Inr d, tr1)"
    and patched: "b1 = fixBytecode_copy version d b"
    and len: "readSourceHash version (JSBuffer b1) = (Inr len :: 'x error + nat)"
    and opts: "opts = \<lparr>opt_produceCachedData = False, opt_cachedData = Some (JSBuffer b1),
                        opt_filename = None\<rparr>"
  shows "fst (snd (runBytecode eng version (JSBuffer b) tr)) = JSBuffer b1 \<and>
         (\<forall>e. dummyCode eng len = Inl e \<longrightarrow>
            e \<noteq> IncompatibleCache \<and>
            runBytecode eng version (JSBuffer b) tr = (Inl e, JSBuffer b1, tr1)) \<and>
         (\<forall>code x. dummyCode eng len = Inr code \<and> new_Script eng code opts = Inl x \<longrightarrow>
            runBytecode eng version (JSBuffer b) tr
              = (Inl (Thrown x), JSBuffer b1, tr1 @ [NewScript code opts])) \<and>
         (\<forall>code script. dummyCode eng len = Inr code \<and> new_Script eng code opts = Inr script \<longrightarrow>
            (fst (runBytecode eng version (JSBuffer b) tr) = Inl IncompatibleCache
               \<longleftrightarrow> cachedDataRejected eng script) \<and>
            (cachedDataRejected eng script \<longrightarrow>
               snd (snd (runBytecode eng version (JSBuffer b) tr))
                 = tr1 @ [NewScript code opts]) \<and>
            (\<not> cachedDataRejected eng script \<longrightarrow>
               fst (runBytecode eng version (JSBuffer b) tr)
                 = (case runInThisContext eng script of
                      Inl x \<Rightarrow> Inl (Thrown x) | Inr v \<Rightarrow> Inr v) \<and>
               snd (snd (runBytecode eng version (JSBuffer b) tr))
                 = tr1 @ [NewScript code opts, RunInThisContext]))"
proof -
  have fixed: "fixBytecode eng version (JSBuffer b) tr = (Inr (), JSBuffer b1, tr1)"
    using fixBytecode_ok[OF dummy] patched by simp
  have buffer: "fst (snd (runBytecode eng version (JSBuffer b) tr)) = JSBuffer b1"
    using fixed len
    by (simp add: runBytecode_def Let_def split: sum.splits)
  have failed: "e \<noteq> IncompatibleCache \<and>
      runBytecode eng version (JSBuffer b) tr = (Inl e, JSBuffer b1, tr1)"
    if "dummyCode eng len = Inl e" for e
    using that fixed len dummyCode_Inl[OF that] by (simp add: runBytecode_def)
  have thrown: "runBytecode eng version (JSBuffer b) tr
              = (Inl (Thrown x), JSBuffer b1, tr1 @ [NewScript code opts])"
    if "dummyCode eng len = Inr code \<and> new_Script eng code opts = Inl x" for code x
    using that fixed len opts by (simp add: runBytecode_def)
  have compiled: "(fst (runBytecode eng version (JSBuffer b) tr) = Inl IncompatibleCache
               \<longleftrightarrow> cachedDataRejected eng script) \<and>
            (cachedDataRejected eng script \<longrightarrow>
               snd (snd (runBytecode eng version (JSBuffer b) tr))
                 = tr1 @ [NewScript code opts]) \<and>
            (\<not> cachedDataRejected eng script \<longrightarrow>
               fst (runBytecode eng version (JSBuffer b) tr)
                 = (case runInThisContext eng script of
                      Inl x \<Rightarrow> Inl (Thrown x) | Inr v \<Rightarrow> Inr v) \<and>
               snd (snd (runBytecode eng version (JSBuffer b) tr))
                 = tr1 @ [NewScript code opts, RunInThisContext])"
    if "dummyCode eng len = Inr code \<and> new_Script eng code opts = Inr script" for code script
  proof (cases "cachedDataRejected eng script")
    case True
    then show ?thesis using that fixed len opts by (simp add: runBytecode_def)
  next
    case False
    then show ?thesis using that fixed len opts
      by (cases "runInThisContext eng script") (simp_all add: runBytecode_def)
  qed
  from buffer failed thrown compiled show ?thesis by blast
qed

text \<open>On the sample engine, a cache whose bytes 12 to 19 are zero is patched in place, accepted and run.\<close>

theorem runBytecode_steps_witness:
  "fst (snd (runBytecode sample_engine (js ''v16.0.0'')
       (JSBuffer [0xDE, 0xC0, 0x17, 0xC0, 1, 2, 3, 4, 3, 0, 0, 0, 0, 0, 0, 0, 0, 0, 0, 0,
                  13, 14, 15, 16, 0x31, 0x2B, 0x31]) []))
     = JSBuffer [0xDE, 0xC0, 0x17, 0xC0, 1, 2, 3, 4, 3, 0, 0, 0, 5, 6, 7, 8, 9, 10, 11, 12,
                 13, 14, 15, 16, 0x31, 0x2B, 0x31] \<and>
   fst (runBytecode sample_engine (js ''v16.0.0'')
       (JSBuffer [0xDE, 0xC0, 0x17, 0xC0, 1, 2, 3, 4, 3, 0, 0, 0, 0, 0, 0, 0, 0, 0, 0, 0,
                  13, 14, 15, 16, 0x31, 0x2B, 0x31]) []) = Inr 3"
proof -
  let ?b = "[0xDE, 0xC0, 0x17, 0xC0, 1, 2, 3, 4, 3, 0, 0, 0, 0, 0, 0, 0, 0, 0, 0, 0,
             13, 14, 15, 16, 0x31, 0x2B, 0x31] :: buffer"
  let ?b1 = "[0xDE, 0xC0, 0x17, 0xC0, 1, 2, 3, 4, 3, 0, 0, 0, 5, 6, 7, 8, 9, 10, 11, 12,
              13, 14, 15, 16, 0x31, 0x2B, 0x31] :: buffer"
  let ?opts = "\<lparr>opt_produceCachedData = False, opt_cachedData = Some (JSBuffer ?b1),
                opt_filename = None\<rparr>"
  let ?code = "[0x22, 0x200B, 0x22] :: jsstring"
  have h1: "compileCode sample_engine (JSString dummySource) []
              = (Inr (sample_cache dummySource),
                 [NewScript dummySource \<lparr>opt_produceCachedData = True, opt_cachedData = None,
                    opt_filename = None\<rparr>, CreateCachedData])"
    by (simp add: compileCode_def sample_engine_def)
  have h2: "?b1 = fixBytecode_copy (js ''v16.0.0'') (sample_cache dummySource) ?b"
    by (simp add: fixBytecode_copy_def sample_defs copy_def slice_def)
  have h3: "readSourceHash (js ''v16.0.0'') (JSBuffer ?b1) = (Inr 3 :: sample_exception error + nat)"
    by (simp add: readSourceHash_def reduce_sum_def slice_def js_def startsWith_def)
  have h4: "?opts = ?opts" by simp
  have code: "dummyCode sample_engine 3 = Inr ?code"
    using dummyCode_fits[of 3 sample_engine] by (simp add: sample_engine_def)
  have script: "new_Script sample_engine ?code ?opts = Inr (?code, Some (JSBuffer ?b1))"
    by (simp add: sample_engine_def)
  have acc: "\<not> cachedDataRejected sample_engine (?code, Some (JSBuffer ?b1))"
    by (simp add: sample_engine_def sample_rejected_def reduce_sum_def slice_def)
  have run: "runInThisContext sample_engine (?code, Some (JSBuffer ?b1)) = Inr 3"
    by (simp add: sample_engine_def sample_run_def)
  from runBytecode_steps[OF h1 h2 h3 h4] code script acc run show ?thesis by simp
qed

text \<open>
  C3. The Header Patcher is idempotent: the caller's buffer after patching twice equals the
  buffer after patching once, for every value passed, every engine and every version.
\<close>

theorem fixBytecode_idempotent:
  "fst (snd (fixBytecode eng version (fst (snd (fixBytecode eng version buf tr))) tr'))
     = fst (snd (fixBytecode eng version buf tr))"
proof (cases buf)
  case (JSBuffer b)
  show ?thesis
  proof (cases "fst (compileCode eng (JSString dummySource) tr)")
    case (Inl e)
    then have "fst (compileCode eng (JSString dummySource) tr') = Inl e"
      using compileCode_result_trace[of eng "JSString dummySource" tr tr'] by simp
    with Inl JSBuffer show ?thesis by (simp add: fixBytecode_buffer)
  next
    case (Inr d)
    then have "fst (compileCode eng (JSString dummySource) tr') = Inr d"
      using compileCode_result_trace[of eng "JSString dummySource" tr tr'] by simp
    with Inr JSBuffer show ?thesis by (simp add: fixBytecode_buffer fix_idem)
  qed
qed (simp_all add: fixBytecode_non_buffer)

text \<open>On the sample engine, with the early layout.\<close>

theorem fixBytecode_idempotent_witness:
  "fst (snd (fixBytecode sample_engine (js ''v8.9.0'')
       (fst (snd (fixBytecode sample_engine (js ''v8.9.0'')
          (JSBuffer [0, 0, 0, 0, 0, 0, 0, 0, 0, 0, 0, 0, 0, 0, 0, 0, 0, 0, 0, 0, 0, 0, 0, 0]) [])))
       []))
     = JSBuffer [0, 0, 0, 0, 0, 0, 0, 0, 0, 0, 0, 0, 0, 0, 0, 0, 9, 10, 11, 12, 13, 14, 15, 16]"
proof -
  have "fst (snd (fixBytecode sample_engine (js ''v8.9.0'')
          (JSBuffer [0, 0, 0, 0, 0, 0, 0, 0, 0, 0, 0, 0, 0, 0, 0, 0, 0, 0, 0, 0, 0, 0, 0, 0]) []))
     = JSBuffer [0, 0, 0, 0, 0, 0, 0, 0, 0, 0, 0, 0, 0, 0, 0, 0, 9, 10, 11, 12, 13, 14, 15, 16]"
    by (simp add: fixBytecode_def fixBytecode_copy_def sample_defs copy_def slice_def)
  with fixBytecode_idempotent[of sample_engine "js ''v8.9.0''"
         "JSBuffer [0, 0, 0, 0, 0, 0, 0, 0, 0, 0, 0, 0, 0, 0, 0, 0, 0, 0, 0, 0, 0, 0, 0, 0]" "[]" "[]"]
  show ?thesis by simp
qed

text \<open>
  C4, as amended.  The patcher keeps the length of the buffer and overwrites, from the dummy
  buffer, exactly the bytes of the ranges of the layout selected by the version: the early
  layout \<open>[16, 20)\<close> and \<open>[20, 24)\<close>, the mid layout \<open>[12, 16)\<close>, the current layout
  \<open>[12, 16)\<close> and \<open>[16, 20)\<close>; a version with no known signature uses the current
  layout.  The current layout shares its first range with the mid layout and its second
  range with the early layout.
\<close>

theorem fixBytecode_copy_layout:
  "length (fixBytecode_copy version d b) = length b \<and>
   (\<forall>i<length b. fixBytecode_copy version d b ! i =
       (if in_ranges (patch_ranges (layout_of version)) i \<and> i < length d then d ! i else b ! i)) \<and>
   (\<not> early_signature version \<and> \<not> mid_signature version \<longrightarrow> layout_of version = Current)"
proof (intro conjI allI impI)
  show "length (fixBytecode_copy version d b) = length b"
    by (simp add: fixBytecode_copy_def)
next
  fix i assume "i < length b"
  then show "fixBytecode_copy version d b ! i =
       (if in_ranges (patch_ranges (layout_of version)) i \<and> i < length d then d ! i else b ! i)"
    by (cases "layout_of version")
       (auto simp: fixBytecode_copy_def layout_of_def early_signature_def mid_signature_def
                   in_ranges_def copy_slice_nth split: if_splits)
next
  assume "\<not> early_signature version \<and> \<not> mid_signature version"
  then show "layout_of version = Current" by (simp add: layout_of_def)
qed

text \<open>A version with no known signature: byte 12 is taken from the dummy buffer, byte 20 is kept.\<close>

theorem fixBytecode_copy_layout_witness:
  "layout_of (js ''v20.1.0'') = Current \<and>
   fixBytecode_copy (js ''v20.1.0'')
     [1, 2, 3, 4, 5, 6, 7, 8, 9, 10, 11, 12, 13, 14, 15, 16, 17, 18, 19, 20, 21, 22, 23, 24]
     [0, 0, 0, 0, 0, 0, 0, 0, 0, 0, 0, 0, 0, 0, 0, 0, 0, 0, 0, 0, 0, 0, 0, 0] ! 12 = 13 \<and>
   fixBytecode_copy (js ''v20.1.0'')
     [1, 2, 3, 4, 5, 6, 7, 8, 9, 10, 11, 12, 13, 14, 15, 16, 17, 18, 19, 20, 21, 22, 23, 24]
     [0, 0, 0, 0, 0, 0, 0, 0, 0, 0, 0, 0, 0, 0, 0, 0, 0, 0, 0, 0, 0, 0, 0, 0] ! 20 = 0"
proof -
  let ?d = "[1, 2, 3, 4, 5, 6, 7, 8, 9, 10, 11, 12, 13, 14, 15, 16, 17, 18, 19, 20, 21, 22, 23, 24] :: buffer"
  let ?b = "[0, 0, 0, 0, 0, 0, 0, 0, 0, 0, 0, 0, 0, 0, 0, 0, 0, 0, 0, 0, 0, 0, 0, 0] :: buffer"
  have sig: "\<not> early_signature (js ''v20.1.0'') \<and> \<not> mid_signature (js ''v20.1.0'')"
    by (simp add: early_signature_def mid_signature_def startsWith_def js_def)
  have lay: "layout_of (js ''v20.1.0'') = Current"
    using fixBytecode_copy_layout[of "js ''v20.1.0''" ?d ?b] sig by blast
  have nth: "\<forall>i<length ?b. fixBytecode_copy (js ''v20.1.0'') ?d ?b ! i =
       (if in_ranges (patch_ranges (layout_of (js ''v20.1.0''))) i \<and> i < length ?d then ?d ! i else ?b ! i)"
    using fixBytecode_copy_layout[of "js ''v20.1.0''" ?d ?b] by blast
  have "fixBytecode_copy (js ''v20.1.0'') ?d ?b ! 12 = 13"
    using nth[rule_format, of 12] lay by (simp add: in_ranges_def)
  moreover have "fixBytecode_copy (js ''v20.1.0'') ?d ?b ! 20 = 0"
    using nth[rule_format, of 20] lay by (simp add: in_ranges_def)
  ultimately show ?thesis using lay by simp
qed

text \<open>
  C4 as stated fails: the current layout and the mid layout both copy the range at
  offset 12, and the current layout and the early layout both copy the range at offset 16.
\<close>

theorem layouts_share_offsets:
  "fixBytecode_copy (js ''v16.0.0'')
     [1, 2, 3, 4, 5, 6, 7, 8, 9, 10, 11, 12, 13, 14, 15, 16, 17, 18, 19, 20, 21, 22, 23, 24]
     [0, 0, 0, 0, 0, 0, 0, 0, 0, 0, 0, 0, 0, 0, 0, 0, 0, 0, 0, 0, 0, 0, 0, 0]
     = [0, 0, 0, 0, 0, 0, 0, 0, 0, 0, 0, 0, 13, 14, 15, 16, 17, 18, 19, 20, 0, 0, 0, 0] \<and>
   fixBytecode_copy (js ''v14.0.0'')
     [1, 2, 3, 4, 5, 6, 7, 8, 9, 10, 11, 12, 13, 14, 15, 16, 17, 18, 19, 20, 21, 22, 23, 24]
     [0, 0, 0, 0, 0, 0, 0, 0, 0, 0, 0, 0, 0, 0, 0, 0, 0, 0, 0, 0, 0, 0, 0, 0]
     = [0, 0, 0, 0, 0, 0, 0, 0, 0, 0, 0, 0, 13, 14, 15, 16, 0, 0, 0, 0, 0, 0, 0, 0] \<and>
   fixBytecode_copy (js ''v8.9.0'')
     [1, 2, 3, 4, 5, 6, 7, 8, 9, 10, 11, 12, 13, 14, 15, 16, 17, 18, 19, 20, 21, 22, 23, 24]
     [0, 0, 0, 0, 0, 0, 0, 0, 0, 0, 0, 0, 0, 0, 0, 0, 0, 0, 0, 0, 0, 0, 0, 0]
     = [0, 0, 0, 0, 0, 0, 0, 0, 0, 0, 0, 0, 0, 0, 0, 0, 17, 18, 19, 20, 21, 22, 23, 24] \<and>
   layout_of (js ''v16.0.0'') = Current \<and> layout_of (js ''v14.0.0'') = Mid \<and>
   layout_of (js ''v8.9.0'') = Early \<and>
   in_ranges (patch_ranges Current) 12 \<and> in_ranges (patch_ranges Mid) 12 \<and>
   in_ranges (patch_ranges Current) 16 \<and> in_ranges (patch_ranges Early) 16"
  by (simp add: fixBytecode_copy_def copy_def slice_def startsWith_def js_def layout_of_def
                early_signature_def mid_signature_def in_ranges_def)

text \<open>
  C5. \<open>readSourceHash\<close> decodes the four bytes at offset 12 for the early layout, and at
  offset 8 for the mid and the current layout, as the sum of \<open>byte i * 256 ^ i\<close>.
\<close>

theorem readSourceHash_decodes:
  assumes "off = (case layout_of version of Early \<Rightarrow> 12 | Mid \<Rightarrow> 8 | Current \<Rightarrow> 8)"
    and "off + 4 \<le> length b"
  shows "readSourceHash version (JSBuffer b) = Inr (\<Sum>i<4. unat (b ! (off + i)) * 256 ^ i)"
proof -
  have len: "length (slice b off (off + 4)) = 4" using assms(2) by simp
  have "reduce_sum (slice b off (off + 4)) = (\<Sum>i<4. unat (slice b off (off + 4) ! i) * 256 ^ i)"
    using reduce_sum_eq[of "slice b off (off + 4)"] len by simp
  also have "\<dots> = (\<Sum>i<4. unat (b ! (off + i)) * 256 ^ i)"
    using len by (intro sum.cong refl) (simp add: nth_slice)
  finally have red: "reduce_sum (slice b off (off + 4)) = (\<Sum>i<4. unat (b ! (off + i)) * 256 ^ i)" .
  show ?thesis
  proof (cases "early_signature version")
    case True
    then have "off = 12" using assms(1) by (simp add: layout_of_def)
    with red True show ?thesis by (simp add: readSourceHash_def early_signature_def)
  next
    case False
    then have "off = 8" using assms(1) by (simp add: layout_of_def)
    with red False show ?thesis by (simp add: readSourceHash_def early_signature_def)
  qed
qed

text \<open>The same sixteen bytes read under the current and under the early layout.\<close>

theorem readSourceHash_decodes_witness:
  "readSourceHash (js ''v18.0.0'')
     (JSBuffer [0, 1, 2, 3, 4, 5, 6, 7, 0x78, 0x56, 0x34, 0x12, 0x0D, 0xF0, 0xAD, 0x0B])
     = (Inr 305419896 :: unit error + nat) \<and>
   readSourceHash (js ''v8.9.0'')
     (JSBuffer [0, 1, 2, 3, 4, 5, 6, 7, 0x78, 0x56, 0x34, 0x12, 0x0D, 0xF0, 0xAD, 0x0B])
     = (Inr 195948557 :: unit error + nat)"
proof -
  let ?b = "[0, 1, 2, 3, 4, 5, 6, 7, 0x78, 0x56, 0x34, 0x12, 0x0D, 0xF0, 0xAD, 0x0B] :: buffer"
  have cur: "(8::nat) = (case layout_of (js ''v18.0.0'') of Early \<Rightarrow> 12 | Mid \<Rightarrow> 8 | Current \<Rightarrow> 8)"
    by (simp add: layout_of_def early_signature_def mid_signature_def startsWith_def js_def)
  have early: "(12::nat) = (case layout_of (js ''v8.9.0'') of Early \<Rightarrow> 12 | Mid \<Rightarrow> 8 | Current \<Rightarrow> 8)"
    by (simp add: layout_of_def early_signature_def mid_signature_def startsWith_def js_def)
  have l8: "8 + 4 \<le> length ?b" and l12: "12 + 4 \<le> length ?b" by simp_all
  have s4: "(\<Sum>i<4. f i) = f 0 + f 1 + f 2 + f (3::nat)" for f :: "nat \<Rightarrow> nat"
    by (simp add: numeral_eq_Suc)
  from readSourceHash_decodes[OF cur l8, where 'a = unit]
       readSourceHash_decodes[OF early l12, where 'a = unit]
  show ?thesis by (simp add: s4)
qed

text \<open>
  C6, as amended.  After the patcher, when the decoded length is at most 1 or at most the
  engine's maximum string length, the runner compiles a placeholder with the patched buffer
  as cache data: for a decoded length above 1 a quote, \<open>length - 2\<close> zero width spaces
  and a quote, which has exactly the decoded length; for a length of at most 1 the empty
  string.  For a decoded length above the maximum string length the run fails with the
  engine's \<open>RangeError\<close> and no placeholder is compiled.
\<close>

theorem runBytecode_placeholder:
  fixes eng :: "('s, 'v, 'x) engine"
  assumes patched: "fixBytecode eng version (JSBuffer b) tr = (Inr (), buf1, tr1)"
    and len: "readSourceHash version buf1 = (Inr len :: 'x error + nat)"
  shows "(len \<le> 1 \<or> len \<le> max_string_length eng \<longrightarrow>
           (\<exists>code opts rest.
              snd (snd (runBytecode eng version (JSBuffer b) tr))
                = tr1 @ NewScript code opts # rest \<and>
              opt_cachedData opts = Some buf1 \<and>
              code = (if 1 < len then [0x22] @ replicate (len - 2) 0x200B @ [0x22] else []) \<and>
              (1 < len \<longrightarrow> length code = len) \<and>
              (len \<le> 1 \<longrightarrow> code = []))) \<and>
         (1 < len \<and> max_string_length eng < len \<longrightarrow>
            runBytecode eng version (JSBuffer b) tr
              = (Inl (Thrown (range_error eng)), buf1, tr1))"
proof (intro conjI impI)
  assume fits: "len \<le> 1 \<or> len \<le> max_string_length eng"
  let ?code = "if 1 < len then [0x22] @ replicate (len - 2) 0x200B @ [0x22] else [] :: jsstring"
  let ?opts = "\<lparr>opt_produceCachedData = False, opt_cachedData = Some buf1, opt_filename = None\<rparr>"
  have code: "dummyCode eng len = Inr ?code"
    using fits by (cases "len \<le> 1") (simp_all add: dummyCode_small dummyCode_fits)
  have "\<exists>rest. snd (snd (runBytecode eng version (JSBuffer b) tr))
           = tr1 @ NewScript ?code ?opts # rest"
    using patched len code
    by (simp add: runBytecode_def Let_def split: sum.splits)
  then obtain rest where
    "snd (snd (runBytecode eng version (JSBuffer b) tr)) = tr1 @ NewScript ?code ?opts # rest"
    by blast
  moreover have "1 < len \<longrightarrow> length ?code = len" by auto
  moreover have "len \<le> 1 \<longrightarrow> ?code = []" by simp
  ultimately show "\<exists>code opts rest.
              snd (snd (runBytecode eng version (JSBuffer b) tr))
                = tr1 @ NewScript code opts # rest \<and>
              opt_cachedData opts = Some buf1 \<and>
              code = (if 1 < len then [0x22] @ replicate (len - 2) 0x200B @ [0x22] else []) \<and>
              (1 < len \<longrightarrow> length code = len) \<and>
              (len \<le> 1 \<longrightarrow> code = [])"
    by (intro exI[of _ ?code] exI[of _ ?opts] exI[of _ rest]) simp
next
  assume "1 < len \<and> max_string_length eng < len"
  then have "dummyCode eng len = Inl (Thrown (range_error eng))"
    by (simp add: dummyCode_oversized)
  then show "runBytecode eng version (JSBuffer b) tr
              = (Inl (Thrown (range_error eng)), buf1, tr1)"
    using patched len by (simp add: runBytecode_def)
qed

text \<open>On the sample engine, a decoded length of 5 gives a quote, three zero width spaces and a quote.\<close>

theorem runBytecode_placeholder_witness:
  "\<exists>opts rest. snd (snd (runBytecode sample_engine (js ''v16.0.0'')
       (JSBuffer [0xDE, 0xC0, 0x17, 0xC0, 1, 2, 3, 4, 5, 0, 0, 0, 0, 0, 0, 0, 0, 0, 0, 0,
                  13, 14, 15, 16]) []))
     = [NewScript dummySource \<lparr>opt_produceCachedData = True, opt_cachedData = None,
                    opt_filename = None\<rparr>, CreateCachedData]
       @ NewScript [0x22, 0x200B, 0x200B, 0x200B, 0x22] opts # rest"
proof -
  let ?b = "[0xDE, 0xC0, 0x17, 0xC0, 1, 2, 3, 4, 5, 0, 0, 0, 0, 0, 0, 0, 0, 0, 0, 0,
             13, 14, 15, 16] :: buffer"
  let ?b1 = "[0xDE, 0xC0, 0x17, 0xC0, 1, 2, 3, 4, 5, 0, 0, 0, 5, 6, 7, 8, 9, 10, 11, 12,
              13, 14, 15, 16] :: buffer"
  have h1: "fixBytecode sample_engine (js ''v16.0.0'') (JSBuffer ?b) []
      = (Inr (), JSBuffer ?b1,
         [NewScript dummySource \<lparr>opt_produceCachedData = True, opt_cachedData = None,
                    opt_filename = None\<rparr>, CreateCachedData])"
    by (simp add: fixBytecode_def fixBytecode_copy_def sample_defs copy_def slice_def)
  have h2: "readSourceHash (js ''v16.0.0'') (JSBuffer ?b1) = (Inr 5 :: sample_exception error + nat)"
    by (simp add: readSourceHash_def reduce_sum_def slice_def js_def startsWith_def)
  have fits: "(5::nat) \<le> 1 \<or> 5 \<le> max_string_length sample_engine"
    by (simp add: sample_engine_def)
  from runBytecode_placeholder[OF h1 h2, THEN conjunct1, rule_format, OF fits] show ?thesis
    by (simp add: numeral_3_eq_3) blast
qed

text \<open>
  C6 as stated fails: a buffer whose source-length field holds \<open>2 ^ 32 - 1\<close> decodes to
  a length above 1, and on the sample engine no placeholder is built or compiled.
\<close>

theorem runBytecode_oversized_length:
  "readSourceHash (js ''v16.0.0'')
     (JSBuffer [0xDE, 0xC0, 0x17, 0xC0, 1, 2, 3, 4, 0xFF, 0xFF, 0xFF, 0xFF,
                5, 6, 7, 8, 9, 10, 11, 12, 13, 14, 15, 16])
     = (Inr 4294967295 :: sample_exception error + nat) \<and>
   runBytecode sample_engine (js ''v16.0.0'')
     (JSBuffer [0xDE, 0xC0, 0x17, 0xC0, 1, 2, 3, 4, 0xFF, 0xFF, 0xFF, 0xFF,
                5, 6, 7, 8, 9, 10, 11, 12, 13, 14, 15, 16]) []
     = (Inl (Thrown SampleRangeError),
        JSBuffer [0xDE, 0xC0, 0x17, 0xC0, 1, 2, 3, 4, 0xFF, 0xFF, 0xFF, 0xFF,
                  5, 6, 7, 8, 9, 10, 11, 12, 13, 14, 15, 16],
        [NewScript dummySource \<lparr>opt_produceCachedData = True, opt_cachedData = None,
                    opt_filename = None\<rparr>, CreateCachedData])"
proof -
  let ?b = "[0xDE, 0xC0, 0x17, 0xC0, 1, 2, 3, 4, 0xFF, 0xFF, 0xFF, 0xFF,
             5, 6, 7, 8, 9, 10, 11, 12, 13, 14, 15, 16] :: buffer"
  have h1: "fixBytecode sample_engine (js ''v16.0.0'') (JSBuffer ?b) []
      = (Inr (), JSBuffer ?b,
         [NewScript dummySource \<lparr>opt_produceCachedData = True, opt_cachedData = None,
                    opt_filename = None\<rparr>, CreateCachedData])"
    by (simp add: fixBytecode_def fixBytecode_copy_def sample_defs copy_def slice_def)
  have h2: "readSourceHash (js ''v16.0.0'') (JSBuffer ?b)
              = (Inr 4294967295 :: sample_exception error + nat)"
    by (simp add: readSourceHash_def reduce_sum_def slice_def js_def startsWith_def)
  have over: "dummyCode sample_engine 4294967295 = Inl (Thrown SampleRangeError)"
    using dummyCode_oversized[of 4294967295 sample_engine] by (simp add: sample_engine_def)
  have isb: "isBuffer (JSBuffer ?b)" by simp
  have "runBytecode sample_engine (js ''v16.0.0'') (JSBuffer ?b) []
     = (Inl (Thrown SampleRangeError), JSBuffer ?b,
        [NewScript dummySource \<lparr>opt_produceCachedData = True, opt_cachedData = None,
                    opt_filename = None\<rparr>, CreateCachedData])"
    unfolding runBytecode_def using h1 h2 over isb by (simp only: simp_thms if_False prod.case sum.case)
  with h2 show ?thesis by simp
qed

text \<open>
  C7. For every input that is not a byte buffer, \<open>runBytecode\<close> raises the invalid
  argument error, makes no engine call (the log is unchanged) and leaves the input as it
  was.
\<close>

theorem runBytecode_rejects_non_buffer:
  "\<not> isBuffer v \<Longrightarrow>
   runBytecode eng version v tr =
     (Inl (InvalidArgument ''bytecodeBuffer must be a buffer object.''), v, tr)"
  by (simp add: runBytecode_def)

text \<open>A plain string.\<close>

theorem runBytecode_rejects_non_buffer_witness:
  "runBytecode sample_engine (js ''v16.0.0'') (JSString (js ''1+1'')) []
     = (Inl (InvalidArgument ''bytecodeBuffer must be a buffer object.''),
        JSString (js ''1+1''), [])"
  using runBytecode_rejects_non_buffer[of "JSString (js ''1+1'')" sample_engine "js ''v16.0.0''" "[]"]
  by simp

text \<open>
  C8. When the file is read, patched, its placeholder built and compiled, the cache accepted
  and the script returns a callable value, the loader hook calls that value on the module's
  exports with exactly seven arguments in this order: the exports, the \<open>require\<close>
  function of the module (with \<open>resolve\<close>, \<open>extensions\<close> and \<open>cache\<close> attached), the
  module, the filename, its directory, the process and the global object.  It makes no call
  otherwise, and no other call.  The formal parameters of the function that \<open>Module.wrap\<close>
  of Node makes of a script, which is what \<open>compileFile\<close> hands to the compiler for a
  module, are bound by that call, in order, to the exports, the \<open>require\<close> function, the
  module, the filename and the directory.
\<close>

theorem jsc_extension_invokes_wrapper:
  fixes eng :: "('s, 'v, 'x) engine"
    and callable :: "'v \<Rightarrow> ('m invocation \<Rightarrow> 'x + 'r) option"
  assumes call: "call = \<lparr>this_arg = ExportsOf module,
      arguments = [ExportsOf module,
            Require \<lparr>require_forwards_to = module, require_resolve = module,
                     require_main = mainModule, require_extensions = Module_extensions,
                     require_cache = Module_cache\<rparr>,
            ModuleHandle module, StringArg filename, StringArg (path_dirname h filename),
            ProcessHandle, GlobalObject]\<rparr>"
  shows "(\<forall>bytes buf1 tr1 len code script compiledWrapper body.
            readFileSync h w filename = Inr bytes \<and>
            fixBytecode eng version (JSBuffer bytes) tr = (Inr (), buf1, tr1) \<and>
            readSourceHash version buf1 = (Inr len :: 'x error + nat) \<and>
            dummyCode eng len = Inr code \<and>
            new_Script eng code
              \<lparr>opt_produceCachedData = False, opt_cachedData = Some buf1,
                opt_filename = Some filename\<rparr> = Inr script \<and>
            \<not> cachedDataRejected eng script \<and>
            runInThisContext eng script = Inr compiledWrapper \<and>
            callable compiledWrapper = Some body \<longrightarrow>
            jsc_extension eng h version mainModule callable module filename w tr
              = (case body call of Inl x \<Rightarrow> Inl (Thrown x) | Inr r \<Rightarrow> Inr r,
                 tr1 @ [NewScript code
                          \<lparr>opt_produceCachedData = False, opt_cachedData = Some buf1,
                            opt_filename = Some filename\<rparr>,
                        RunInThisContext],
                 Some call)) \<and>
         (\<forall>made.
            snd (snd (jsc_extension eng h version mainModule callable module filename w tr))
              = Some made \<longrightarrow>
            made = call \<and>
            (\<exists>bytes buf1 tr1 len code script compiledWrapper body.
               readFileSync h w filename = Inr bytes \<and>
               fixBytecode eng version (JSBuffer bytes) tr = (Inr (), buf1, tr1) \<and>
               readSourceHash version buf1 = (Inr len :: 'x error + nat) \<and>
               dummyCode eng len = Inr code \<and>
               new_Script eng code
                 \<lparr>opt_produceCachedData = False, opt_cachedData = Some buf1,
                   opt_filename = Some filename\<rparr> = Inr script \<and>
               \<not> cachedDataRejected eng script \<and>
               runInThisContext eng script = Inr compiledWrapper \<and>
               callable compiledWrapper = Some body)) \<and>
         (\<forall>src. Module_wrap h = Node_Module_wrap \<longrightarrow>
            bind_parameters (formal_parameters (Module_wrap h src)) (arguments call)
              = [(js ''exports'', ExportsOf module),
                 (js ''require'',
                  Require \<lparr>require_forwards_to = module, require_resolve = module,
                     require_main = mainModule, require_extensions = Module_extensions,
                     require_cache = Module_cache\<rparr>),
                 (js ''module'', ModuleHandle module),
                 (js ''__filename'', StringArg filename),
                 (js ''__dirname'', StringArg (path_dirname h filename))]) \<and>
         (\<forall>args outp w0 tr0 name w' tr'.
            compileFile eng h args outp w0 tr0 = (Inr name, w', tr') \<and>
            (case args of ArgsString _ \<Rightarrow> True
             | ArgsObject a \<Rightarrow> args_compileAsModule a \<noteq> JSBoolean False \<and>
                             \<not> truthy (args_electron a)) \<longrightarrow>
            (\<exists>src rest. tr' = tr0 @ NewScript (Module_wrap h src)
               \<lparr>opt_produceCachedData = True, opt_cachedData = None,
                 opt_filename = None\<rparr> # rest))"
proof -
  have invokes:
    "(\<forall>bytes buf1 tr1 len code script compiledWrapper body.
            readFileSync h w filename = Inr bytes \<and>
            fixBytecode eng version (JSBuffer bytes) tr = (Inr (), buf1, tr1) \<and>
            readSourceHash version buf1 = (Inr len :: 'x error + nat) \<and>
            dummyCode eng len = Inr code \<and>
            new_Script eng code
              \<lparr>opt_produceCachedData = False, opt_cachedData = Some buf1,
                opt_filename = Some filename\<rparr> = Inr script \<and>
            \<not> cachedDataRejected eng script \<and>
            runInThisContext eng script = Inr compiledWrapper \<and>
            callable compiledWrapper = Some body \<longrightarrow>
            jsc_extension eng h version mainModule callable module filename w tr
              = (case body call of Inl x \<Rightarrow> Inl (Thrown x) | Inr r \<Rightarrow> Inr r,
                 tr1 @ [NewScript code
                          \<lparr>opt_produceCachedData = False, opt_cachedData = Some buf1,
                            opt_filename = Some filename\<rparr>,
                        RunInThisContext],
                 Some call))"
  proof (intro allI impI)
    fix bytes buf1 tr1 len code script compiledWrapper body
    assume steps: "readFileSync h w filename = Inr bytes \<and>
              fixBytecode eng version (JSBuffer bytes) tr = (Inr (), buf1, tr1) \<and>
              readSourceHash version buf1 = (Inr len :: 'x error + nat) \<and>
              dummyCode eng len = Inr code \<and>
              new_Script eng code
                \<lparr>opt_produceCachedData = False, opt_cachedData = Some buf1,
                  opt_filename = Some filename\<rparr> = Inr script \<and>
              \<not> cachedDataRejected eng script \<and>
              runInThisContext eng script = Inr compiledWrapper \<and>
              callable compiledWrapper = Some body"
    then show "jsc_extension eng h version mainModule callable module filename w tr
                = (case body call of Inl x \<Rightarrow> Inl (Thrown x) | Inr r \<Rightarrow> Inr r,
                   tr1 @ [NewScript code
                            \<lparr>opt_produceCachedData = False, opt_cachedData = Some buf1,
                              opt_filename = Some filename\<rparr>,
                          RunInThisContext],
                   Some call)"
      using call by (simp add: jsc_extension_def Let_def)
  qed
  have only_then:
    "(\<forall>made.
            snd (snd (jsc_extension eng h version mainModule callable module filename w tr))
              = Some made \<longrightarrow>
            made = call \<and>
            (\<exists>bytes buf1 tr1 len code script compiledWrapper body.
               readFileSync h w filename = Inr bytes \<and>
               fixBytecode eng version (JSBuffer bytes) tr = (Inr (), buf1, tr1) \<and>
               readSourceHash version buf1 = (Inr len :: 'x error + nat) \<and>
               dummyCode eng len = Inr code \<and>
               new_Script eng code
                 \<lparr>opt_produceCachedData = False, opt_cachedData = Some buf1,
                   opt_filename = Some filename\<rparr> = Inr script \<and>
               \<not> cachedDataRejected eng script \<and>
               runInThisContext eng script = Inr compiledWrapper \<and>
               callable compiledWrapper = Some body))"
  proof (intro allI impI)
    fix made
    let ?run = "jsc_extension eng h version mainModule callable module filename w tr"
    assume made: "snd (snd ?run) = Some made"
    from made obtain bytes where rd: "readFileSync h w filename = Inr bytes"
      by (cases "readFileSync h w filename") (simp_all add: jsc_extension_def)
    obtain r1 buf1 tr1 where fx: "fixBytecode eng version (JSBuffer bytes) tr = (r1, buf1, tr1)"
      by (cases "fixBytecode eng version (JSBuffer bytes) tr") auto
    from made rd fx have r1: "r1 = Inr ()"
      by (cases r1) (simp_all add: jsc_extension_def)
    from made rd fx r1 obtain len where ln: "readSourceHash version buf1 = (Inr len :: 'x error + nat)"
      by (cases "readSourceHash version buf1 :: 'x error + nat") (simp_all add: jsc_extension_def)
    from made rd fx r1 ln obtain code where cd: "dummyCode eng len = Inr code"
      by (cases "dummyCode eng len") (simp_all add: jsc_extension_def)
    let ?opts = "\<lparr>opt_produceCachedData = False, opt_cachedData = Some buf1,
                  opt_filename = Some filename\<rparr>"
    from made rd fx r1 ln cd obtain script where sc: "new_Script eng code ?opts = Inr script"
      by (cases "new_Script eng code ?opts") (simp_all add: jsc_extension_def)
    from made rd fx r1 ln cd sc have acc: "\<not> cachedDataRejected eng script"
      by (cases "cachedDataRejected eng script") (simp_all add: jsc_extension_def)
    from made rd fx r1 ln cd sc acc obtain cw where cw: "runInThisContext eng script = Inr cw"
      by (cases "runInThisContext eng script") (simp_all add: jsc_extension_def)
    from made rd fx r1 ln cd sc acc cw obtain body where bd: "callable cw = Some body"
      by (cases "callable cw") (simp_all add: jsc_extension_def Let_def)
    have "snd (snd ?run) = Some call"
      using rd fx r1 ln cd sc acc cw bd call by (simp add: jsc_extension_def Let_def)
    with made have "made = call" by simp
    then show "made = call \<and>
              (\<exists>bytes buf1 tr1 len code script compiledWrapper body.
                 readFileSync h w filename = Inr bytes \<and>
                 fixBytecode eng version (JSBuffer bytes) tr = (Inr (), buf1, tr1) \<and>
                 readSourceHash version buf1 = (Inr len :: 'x error + nat) \<and>
                 dummyCode eng len = Inr code \<and>
                 new_Script eng code
                   \<lparr>opt_produceCachedData = False, opt_cachedData = Some buf1,
                     opt_filename = Some filename\<rparr> = Inr script \<and>
                 \<not> cachedDataRejected eng script \<and>
                 runInThisContext eng script = Inr compiledWrapper \<and>
                 callable compiledWrapper = Some body)"
      using rd fx r1 ln cd sc acc cw bd by blast
  qed
  have binds:
    "(\<forall>src. Module_wrap h = Node_Module_wrap \<longrightarrow>
            bind_parameters (formal_parameters (Module_wrap h src)) (arguments call)
              = [(js ''exports'', ExportsOf module),
                 (js ''require'',
                  Require \<lparr>require_forwards_to = module, require_resolve = module,
                     require_main = mainModule, require_extensions = Module_extensions,
                     require_cache = Module_cache\<rparr>),
                 (js ''module'', ModuleHandle module),
                 (js ''__filename'', StringArg filename),
                 (js ''__dirname'', StringArg (path_dirname h filename))])"
  proof (intro allI impI)
    fix src
    assume "Module_wrap h = Node_Module_wrap"
    then show "bind_parameters (formal_parameters (Module_wrap h src)) (arguments call)
                = [(js ''exports'', ExportsOf module),
                   (js ''require'',
                    Require \<lparr>require_forwards_to = module, require_resolve = module,
                       require_main = mainModule, require_extensions = Module_extensions,
                       require_cache = Module_cache\<rparr>),
                   (js ''module'', ModuleHandle module),
                   (js ''__filename'', StringArg filename),
                   (js ''__dirname'', StringArg (path_dirname h filename))]"
      using call by (simp add: formal_parameters_Node_Module_wrap bind_parameters_def)
  qed
  have wrapped:
    "(\<forall>args outp w0 tr0 name w' tr'.
            compileFile eng h args outp w0 tr0 = (Inr name, w', tr') \<and>
            (case args of ArgsString _ \<Rightarrow> True
             | ArgsObject a \<Rightarrow> args_compileAsModule a \<noteq> JSBoolean False \<and>
                             \<not> truthy (args_electron a)) \<longrightarrow>
            (\<exists>src rest. tr' = tr0 @ NewScript (Module_wrap h src)
               \<lparr>opt_produceCachedData = True, opt_cachedData = None,
                 opt_filename = None\<rparr> # rest))"
  proof (intro allI impI)
    fix args outp w0 tr0 name w' tr'
    assume "compileFile eng h args outp w0 tr0 = (Inr name, w', tr') \<and>
              (case args of ArgsString _ \<Rightarrow> True
               | ArgsObject a \<Rightarrow> args_compileAsModule a \<noteq> JSBoolean False \<and>
                               \<not> truthy (args_electron a))"
    then show "\<exists>src rest. tr' = tr0 @ NewScript (Module_wrap h src)
                 \<lparr>opt_produceCachedData = True, opt_cachedData = None,
                   opt_filename = None\<rparr> # rest"
      using compileFile_compiles_wrapped[of eng h args outp w0 tr0 name w' tr'] by blast
  qed
  from invokes only_then binds wrapped show ?thesis by (intro conjI)
qed

text \<open>On the sample engine and host, loading \<open>app.jsc\<close>.\<close>

theorem jsc_extension_invokes_wrapper_witness:
  "jsc_extension sample_engine sample_host (js ''v16.0.0'') None sample_callable
     (0::nat) (js ''app.jsc'') sample_artifacts []
   = (Inr 7,
      [NewScript dummySource \<lparr>opt_produceCachedData = True, opt_cachedData = None,
                    opt_filename = None\<rparr>, CreateCachedData,
       NewScript [0x22, 0x200B, 0x22]
         \<lparr>opt_produceCachedData = False,
           opt_cachedData = Some (JSBuffer (sample_cache (js ''1+1''))),
           opt_filename = Some (js ''app.jsc'')\<rparr>,
       RunInThisContext],
      Some \<lparr>this_arg = ExportsOf 0,
         arguments =
           [ExportsOf 0,
            Require \<lparr>require_forwards_to = 0, require_resolve = 0, require_main = None,
                     require_extensions = Module_extensions, require_cache = Module_cache\<rparr>,
            ModuleHandle 0, StringArg (js ''app.jsc''), StringArg (js ''.''),
            ProcessHandle, GlobalObject]\<rparr>)"
proof -
  let ?cache = "sample_cache (js ''1+1'')"
  let ?code = "[0x22, 0x200B, 0x22] :: jsstring"
  let ?opts = "\<lparr>opt_produceCachedData = False, opt_cachedData = Some (JSBuffer ?cache),
                opt_filename = Some (js ''app.jsc'')\<rparr>"
  let ?tr1 = "[NewScript dummySource \<lparr>opt_produceCachedData = True, opt_cachedData = None,
                    opt_filename = None\<rparr>, CreateCachedData]"
  let ?call = "\<lparr>this_arg = ExportsOf (0::nat),
         arguments =
           [ExportsOf 0,
            Require \<lparr>require_forwards_to = 0, require_resolve = 0, require_main = None,
                     require_extensions = Module_extensions, require_cache = Module_cache\<rparr>,
            ModuleHandle 0, StringArg (js ''app.jsc''),
            StringArg (path_dirname sample_host (js ''app.jsc'')),
            ProcessHandle, GlobalObject]\<rparr>"
  have rd: "readFileSync sample_host sample_artifacts (js ''app.jsc'') = Inr ?cache"
    by (simp add: readFileSync_def sample_artifacts_def)
  have fx: "fixBytecode sample_engine (js ''v16.0.0'') (JSBuffer ?cache) []
              = (Inr (), JSBuffer ?cache, ?tr1)"
    by (simp add: fixBytecode_def fixBytecode_copy_def sample_defs copy_def slice_def)
  have ln: "readSourceHash (js ''v16.0.0'') (JSBuffer ?cache)
              = (Inr 3 :: sample_exception error + nat)"
    by (simp add: readSourceHash_def reduce_sum_def slice_def sample_cache_def js_def
                  startsWith_def)
  have cd: "dummyCode sample_engine 3 = Inr ?code"
    using dummyCode_fits[of 3 sample_engine] by (simp add: sample_engine_def)
  have sc: "new_Script sample_engine ?code ?opts = Inr (?code, Some (JSBuffer ?cache))"
    by (simp add: sample_engine_def)
  have acc: "\<not> cachedDataRejected sample_engine (?code, Some (JSBuffer ?cache))"
    by (simp add: sample_engine_def sample_rejected_def reduce_sum_def slice_def
                  sample_cache_def js_def)
  have run: "runInThisContext sample_engine (?code, Some (JSBuffer ?cache)) = Inr 3"
    by (simp add: sample_engine_def sample_run_def sample_cache_def js_def)
  have body: "sample_callable 3 = Some (\<lambda>call. Inr (length (arguments call)))"
    by (simp add: sample_callable_def)
  have dir: "path_dirname sample_host (js ''app.jsc'') = js ''.''"
    by (simp add: sample_host_def)
  from jsc_extension_invokes_wrapper[where call = ?call and h = sample_host
         and module = "0::nat" and mainModule = None and filename = "js ''app.jsc''"
         and eng = sample_engine and callable = sample_callable and version = "js ''v16.0.0''"
         and w = sample_artifacts and tr = "[]", OF refl, THEN conjunct1, rule_format,
         of ?cache "JSBuffer ?cache" ?tr1 3 ?code "(?code, Some (JSBuffer ?cache))" 3
            "\<lambda>call. Inr (length (arguments call))"]
       rd fx ln cd sc acc run body
  show ?thesis by (simp add: dir)
qed

text \<open>
  C9. The reader returns the same value on a buffer before and after patching, for every
  version and every dummy buffer: the ranges the patcher copies lie after the field the
  reader decodes.
\<close>

theorem readSourceHash_after_fixBytecode:
  "readSourceHash version (fst (snd (fixBytecode eng version buf tr))) = readSourceHash version buf"
proof (cases buf)
  case (JSBuffer b)
  then show ?thesis
    by (cases "fst (compileCode eng (JSString dummySource) tr)")
       (simp_all add: fixBytecode_buffer readSourceHash_copy)
qed (simp_all add: fixBytecode_non_buffer)

text \<open>On the sample engine, with the mid layout.\<close>

theorem readSourceHash_after_fixBytecode_witness:
  "readSourceHash (js ''v12.4.0'')
     (fst (snd (fixBytecode sample_engine (js ''v12.4.0'')
        (JSBuffer [0, 0, 0, 0, 0, 0, 0, 0, 7, 1, 0, 0, 0, 0, 0, 0, 0, 0, 0, 0]) [])))
     = (Inr 263 :: unit error + nat)"
proof -
  have "readSourceHash (js ''v12.4.0'')
          (JSBuffer [0, 0, 0, 0, 0, 0, 0, 0, 7, 1, 0, 0, 0, 0, 0, 0, 0, 0, 0, 0])
        = (Inr 263 :: unit error + nat)"
    by (simp add: readSourceHash_def reduce_sum_def slice_def js_def startsWith_def)
  with readSourceHash_after_fixBytecode[of "js ''v12.4.0''" sample_engine
         "JSBuffer [0, 0, 0, 0, 0, 0, 0, 0, 7, 1, 0, 0, 0, 0, 0, 0, 0, 0, 0, 0]" "[]",
         where 'a = unit]
  show ?thesis by simp
qed



end
